theory Spec2Isabelle
  imports Complex_Main "HOL-Library.Word"
begin

section \<open>py-multihash: the multihash codec of \<open>multihash/multihash.py\<close>\<close>

text \<open>
  The module packs a hash digest behind a one-byte function code and a one-byte length
  (\<open>encode\<close>), unpacks such a buffer (\<open>decode\<close>) and classifies codes
  (\<open>is_app_code\<close>, \<open>is_valid_code\<close>). The embedding follows the function bodies statement
  by statement, with Python 3 semantics: every exception a statement can raise is a value
  \<open>Inl e\<close> of the result type, and a later statement runs only when the earlier ones
  returned.

  Two remarks on the module as a whole. The call on line 110 is read with a comma between
  its last two arguments (\<open>name, digest\<close>); without it the file is not a Python program at
  all, and importing it ends in \<open>SyntaxError\<close>. With the comma, importing it still fails:
  the module body reads \<open>hashlib\<close> on line 77 without ever importing it, before any \<open>def\<close>
  has run (\<open>module_body\<close> below). The functions are modelled as their bodies; a call
  through the module is \<open>call\<close>, which runs a body only when the module body returned.
\<close>

subsection \<open>Values, exceptions, results\<close>

text \<open>
  The classification predicates accept any object, so their argument ranges over a small
  universe of Python values: integers, booleans (which are \<open>numbers.Integral\<close> too),
  finite floats (each one is a real number), strings, byte strings, \<open>None\<close> and lists
  (the unhashable representative).
\<close>

type_synonym bytes = "8 word list"

datatype pyval =
    PInt int
  | PBool bool
  | PFloat real
  | PStr string
  | PBytes bytes
  | PNone
  | PList "pyval list"

text \<open>
  The \<open>ValueError\<close>s are told apart by the \<open>raise\<close> statement they come from:
  line 189 (\<open>BufferLengthOutOfRange\<close>), lines 194 and 213 (\<open>InvalidIdentifier\<close>),
  line 201 (\<open>LengthMismatch\<close>), line 218 (\<open>DigestLengthMismatch\<close>) and line 229
  (\<open>IllegalDigestLength\<close>). The templates of lines 205 and 222 contain \<open>{0]\<close>, so
  \<open>str.format\<close> itself raises a \<open>ValueError\<close> (unexpected \<open>{\<close> in field name) before the
  \<open>raise\<close> of lines 206 and 223 runs: \<open>MalformedTemplate\<close>. \<open>ByteOutOfRange\<close> is the
  error of \<open>bytes([...])\<close> on an element outside \<open>range(256)\<close>.
\<close>

datatype value_error =
    BufferLengthOutOfRange
  | InvalidIdentifier
  | LengthMismatch
  | DigestLengthMismatch
  | IllegalDigestLength
  | MalformedTemplate
  | ByteOutOfRange

datatype type_error = UnhashableType | DictNotCallable

datatype pyerr =
    NameError string
  | TypeError type_error
  | KeyError pyval
  | IndexError
  | AssertionError
  | ValueError value_error

type_synonym 'a res = "pyerr + 'a"

definition bind_res :: "'a res \<Rightarrow> ('a \<Rightarrow> 'b res) \<Rightarrow> 'b res" where
  "bind_res m f = (case m of Inl e \<Rightarrow> Inl e | Inr x \<Rightarrow> f x)"

subsection \<open>Dictionaries\<close>

text \<open>
  A \<open>dict\<close> is the list of its items in insertion order. Keys are compared as Python
  compares them: numbers by value across \<open>int\<close>, \<open>bool\<close> and \<open>float\<close> (their hashes agree
  when they are equal), everything else within its own class. An unhashable key raises
  \<open>TypeError\<close> in a lookup and in a membership test alike.
\<close>

type_synonym 'v dict = "(pyval \<times> 'v) list"

fun is_hashable :: "pyval \<Rightarrow> bool" where
  "is_hashable (PList xs) = False"
| "is_hashable v = True"

fun num_of :: "pyval \<Rightarrow> real option" where
  "num_of (PInt i) = Some (of_int i)"
| "num_of (PBool b) = Some (if b then 1 else 0)"
| "num_of (PFloat r) = Some r"
| "num_of v = None"

definition key_eq :: "pyval \<Rightarrow> pyval \<Rightarrow> bool" where
  "key_eq a b =
     (case num_of a of
        Some x \<Rightarrow> (case num_of b of Some y \<Rightarrow> x = y | None \<Rightarrow> False)
      | None \<Rightarrow> (case num_of b of Some y \<Rightarrow> False | None \<Rightarrow> a = b))"

fun dict_find :: "'v dict \<Rightarrow> pyval \<Rightarrow> 'v option" where
  "dict_find [] k = None"
| "dict_find ((k', v) # d) k = (if key_eq k' k then Some v else dict_find d k)"

text \<open>\<open>d[k]\<close>\<close>

definition getitem :: "'v dict \<Rightarrow> pyval \<Rightarrow> 'v res" where
  "getitem d k =
     (if \<not> is_hashable k then Inl (TypeError UnhashableType)
      else case dict_find d k of None \<Rightarrow> Inl (KeyError k) | Some v \<Rightarrow> Inr v)"

text \<open>\<open>k in d\<close>\<close>

definition contains :: "pyval \<Rightarrow> 'v dict \<Rightarrow> bool res" where
  "contains k d =
     (if \<not> is_hashable k then Inl (TypeError UnhashableType)
      else Inr (dict_find d k \<noteq> None))"

text \<open>\<open>d[k] = v\<close> on a hashable key: an existing key keeps its place.\<close>

fun setitem :: "'v dict \<Rightarrow> pyval \<Rightarrow> 'v \<Rightarrow> 'v dict" where
  "setitem [] k v = [(k, v)]"
| "setitem ((k', v') # d) k v =
     (if key_eq k' k then (k', v) # d else (k', v') # setitem d k v)"

text \<open>\<open>d(k)\<close>: a \<open>dict\<close> is not callable, whatever the argument.\<close>

definition call_dict :: "'v dict \<Rightarrow> pyval \<Rightarrow> 'r res" where
  "call_dict d k = Inl (TypeError DictNotCallable)"

subsection \<open>The registry (lines 42 to 74)\<close>

definition SHA1 :: int where "SHA1 = 0x11"
definition SHA2_256 :: int where "SHA2_256 = 0x12"
definition SHA2_512 :: int where "SHA2_512 = 0x13"
definition SHA3 :: int where "SHA3 = 0x14"
definition BLAKE2B :: int where "BLAKE2B = 0x40"
definition BLAKE2S :: int where "BLAKE2S = 0x41"

definition NAMES :: "int dict" where
  "NAMES =
     [(PStr ''sha1'', SHA1),
      (PStr ''sha2-256'', SHA2_256),
      (PStr ''sha2-512'', SHA2_512),
      (PStr ''sha3'', SHA3),
      (PStr ''blake2b'', BLAKE2B),
      (PStr ''blake2s'', BLAKE2S)]"

text \<open>\<open>CODES = dict((v, k) for k, v in NAMES.items())\<close>\<close>

definition CODES :: "pyval dict" where
  "CODES = foldl (\<lambda>d (k, v). setitem d (PInt v) k) [] NAMES"

definition LENGTHS :: "int dict" where
  "LENGTHS =
     [(PInt SHA1, 20),
      (PInt SHA2_256, 32),
      (PInt SHA2_512, 64),
      (PInt SHA3, 64),
      (PInt BLAKE2B, 64),
      (PInt BLAKE2S, 32)]"

text \<open>
  Line 210 reads the global \<open>LENGHTS\<close>. The module binds no such name (the table is
  \<open>LENGTHS\<close>), and no builtin has it, so evaluating the name raises \<open>NameError\<close>.
\<close>

definition LENGHTS :: "int dict res" where
  "LENGHTS = Inl (NameError ''LENGHTS'')"

subsection \<open>The module body and calls through the module\<close>

text \<open>
  Line 77 reads the global \<open>hashlib\<close>. The only imports are \<open>namedtuple\<close>, \<open>numbers\<close>
  and, each one optional, \<open>sha3\<close> and \<open>pyblake2\<close>, so the name is unbound and evaluating it
  raises \<open>NameError\<close>. The hash constructors stored in \<open>FUNCS\<close> are opaque here.
\<close>

definition hashlib :: "unit res" where
  "hashlib = Inl (NameError ''hashlib'')"

definition FUNCS :: "unit dict res" where
  "FUNCS =
     bind_res hashlib (\<lambda>sha1.
     bind_res hashlib (\<lambda>sha256.
     bind_res hashlib (\<lambda>sha512.
       Inr [(PInt SHA1, sha1), (PInt SHA2_256, sha256), (PInt SHA2_512, sha512)])))"

text \<open>
  The statements of the module body run in order. Those before \<open>FUNCS\<close> (the constants and
  the tables above) raise nothing; those after it (lines 82 to 87 and every \<open>def\<close>) raise
  nothing either, and run only when the dictionary display of lines 76 to 80 returned.
\<close>

definition module_body :: "unit res" where
  "module_body = bind_res FUNCS (\<lambda>funcs. Inr ())"

text \<open>
  A call \<open>f(x)\<close> of a function of the module by a client whose import of the module ended
  as \<open>loaded\<close>: the error of the import, or else what the body of \<open>f\<close> does on \<open>x\<close>.
\<close>

definition call :: "unit res \<Rightarrow> ('a \<Rightarrow> 'b res) \<Rightarrow> 'a \<Rightarrow> 'b res" where
  "call loaded f x = bind_res loaded (\<lambda>u. f x)"

subsection \<open>Classification of codes (lines 156 to 181)\<close>

text \<open>\<open>isinstance(code, numbers.Integral)\<close>\<close>

fun is_integral :: "pyval \<Rightarrow> bool" where
  "is_integral (PInt i) = True"
| "is_integral (PBool b) = True"
| "is_integral v = False"

fun int_of :: "pyval \<Rightarrow> int" where
  "int_of (PInt i) = i"
| "int_of (PBool b) = (if b then 1 else 0)"
| "int_of v = 0"

definition is_app_code :: "pyval \<Rightarrow> bool res" where
  "is_app_code code =
     (if is_integral code then Inr (int_of code \<ge> 0 \<and> int_of code < 0x10)
      else Inr False)"

definition is_valid_code :: "pyval \<Rightarrow> bool res" where
  "is_valid_code code =
     bind_res (is_app_code code) (\<lambda>app.
       if app then Inr True else contains code CODES)"

subsection \<open>Byte strings\<close>

text \<open>\<open>buf[i]\<close> for an index \<open>i \<ge> 0\<close>: an \<open>int\<close> in Python 3.\<close>

definition byte_at :: "bytes \<Rightarrow> nat \<Rightarrow> int res" where
  "byte_at buf i = (if i < length buf then Inr (uint (buf ! i)) else Inl IndexError)"

text \<open>\<open>digest[:length]\<close>: \<open>None\<close> keeps everything, a negative bound counts from the end.\<close>

definition slice_to :: "bytes \<Rightarrow> int option \<Rightarrow> bytes" where
  "slice_to b len =
     (case len of
        None \<Rightarrow> b
      | Some k \<Rightarrow> (if k \<ge> 0 then take (nat k) b else take (length b - nat (- k)) b))"

text \<open>\<open>bytes([x, y])\<close>\<close>

fun bytes_of_ints :: "int list \<Rightarrow> bytes res" where
  "bytes_of_ints [] = Inr []"
| "bytes_of_ints (x # xs) =
     (if 0 \<le> x \<and> x < 256
      then bind_res (bytes_of_ints xs) (\<lambda>bs. Inr (word_of_int x # bs))
      else Inl (ValueError ByteOutOfRange))"

subsection \<open>Validation (lines 186 to 229)\<close>

text \<open>The condition of line 187 is the chained comparison \<open>3 > len(buf) > 129\<close>.\<close>

definition raise_errors_if_invalid_buffer_length :: "bytes \<Rightarrow> unit res" where
  "raise_errors_if_invalid_buffer_length buf =
     (if 3 > int (length buf) \<and> int (length buf) > 129
      then Inl (ValueError BufferLengthOutOfRange)
      else Inr ())"

definition raise_errors_if_invalid_multihash_buffer ::
    "int \<Rightarrow> int \<Rightarrow> pyval \<Rightarrow> bytes \<Rightarrow> unit res" where
  "raise_errors_if_invalid_multihash_buffer code len name digest =
     bind_res (is_valid_code (PInt code)) (\<lambda>valid.
       if \<not> valid then Inl (ValueError InvalidIdentifier)
       else
         let actual = int (length digest) in
         bind_res (call_dict LENGTHS (PInt code)) (\<lambda>default.
           if len \<noteq> actual then Inl (ValueError LengthMismatch)
           else
             bind_res (is_app_code (PInt code)) (\<lambda>app.
               if \<not> app then
                 (if actual > default then Inl (ValueError MalformedTemplate) else Inr ())
               else Inr ())))"

text \<open>
  \<open>length\<close> is \<open>None\<close> or an \<open>int\<close>; \<open>if length and ...\<close> skips \<open>None\<close> and \<open>0\<close>. Line 226
  rebinds \<open>length\<close> to \<open>actual\<close> before the chained comparison of line 227.
\<close>

definition raise_errors_if_invalid_encoding_length ::
    "bytes \<Rightarrow> int \<Rightarrow> int option \<Rightarrow> unit res" where
  "raise_errors_if_invalid_encoding_length digest code len =
     (let actual = int (length digest) in
      bind_res LENGHTS (\<lambda>tbl.
      bind_res (getitem tbl (PInt code)) (\<lambda>default.
      bind_res (getitem NAMES (PInt code)) (\<lambda>name.
      bind_res (is_valid_code (PInt code)) (\<lambda>valid.
        if \<not> valid then Inl (ValueError InvalidIdentifier)
        else
          bind_res (is_app_code (PInt code)) (\<lambda>app.
          bind_res
            (if \<not> app then
               bind_res (call_dict LENGTHS (PInt code)) (\<lambda>conventional.
                 if actual \<noteq> conventional then Inl (ValueError DigestLengthMismatch)
                 else Inr ())
             else Inr ())
            (\<lambda>u.
               if (case len of None \<Rightarrow> False | Some l \<Rightarrow> l \<noteq> 0 \<and> l > actual)
               then Inl (ValueError MalformedTemplate)
               else
                 let len' = actual in
                 if 1 > len' \<and> len' > 127 then Inl (ValueError IllegalDigestLength)
                 else Inr ())))))))"

subsection \<open>\<open>decode\<close> (lines 92 to 111) and \<open>encode\<close> (lines 113 to 152)\<close>

text \<open>The namedtuple \<open>Multihash(code, length, name, digest)\<close> is a 4-tuple.\<close>

type_synonym Multihash = "int \<times> int \<times> pyval \<times> bytes"

definition decode :: "bytes \<Rightarrow> Multihash res" where
  "decode buf =
     bind_res (raise_errors_if_invalid_buffer_length buf) (\<lambda>u.
     bind_res (byte_at buf 0) (\<lambda>code.
     bind_res (byte_at buf 1) (\<lambda>len.
       let digest = drop 2 buf in
       bind_res (getitem CODES (PInt code)) (\<lambda>name.
       bind_res (raise_errors_if_invalid_multihash_buffer code len name digest) (\<lambda>u'.
         Inr (code, len, name, digest))))))"

text \<open>
  \<open>name\<close> is \<open>None\<close> or a \<open>str\<close>; \<open>if name and ...\<close> skips \<open>None\<close> and the empty string, and
  \<open>is_app_code\<close> is evaluated only past that.
\<close>

definition encode :: "bytes \<Rightarrow> int \<Rightarrow> int option \<Rightarrow> string option \<Rightarrow> bytes res" where
  "encode digest code len name =
     bind_res (raise_errors_if_invalid_encoding_length digest code len) (\<lambda>u.
     bind_res
       (case name of
          None \<Rightarrow> Inr ()
        | Some n \<Rightarrow>
            if n = [] then Inr ()
            else
              bind_res (is_app_code (PInt code)) (\<lambda>app.
                if \<not> app then
                  bind_res (getitem CODES (PInt code)) (\<lambda>canonical.
                    if PStr n = canonical then Inr () else Inl AssertionError)
                else Inr ()))
       (\<lambda>u'.
          let actual_length =
                (case len of
                   None \<Rightarrow> int (length digest)
                 | Some l \<Rightarrow> if l \<noteq> 0 then l else int (length digest));
              truncated_digest = slice_to digest len
          in bind_res (bytes_of_ints [code, actual_length]) (\<lambda>header.
               Inr (header @ truncated_digest))))"

text \<open>The digest of the docstrings' examples (20 bytes).\<close>

definition sha1_digest :: bytes where
  "sha1_digest =
     [0xf7, 0xff, 0x9e, 0x8b, 0x7b, 0xb2, 0xe0, 0x9b, 0x70, 0x93,
      0x5a, 0x5d, 0x78, 0x5e, 0x0c, 0xc5, 0xd9, 0xd0, 0xab, 0xf0]"

section \<open>Properties\<close>

subsection \<open>The registry and the classification predicates\<close>

lemma CODES_items:
  "CODES =
     [(PInt 0x11, PStr ''sha1''),
      (PInt 0x12, PStr ''sha2-256''),
      (PInt 0x13, PStr ''sha2-512''),
      (PInt 0x14, PStr ''sha3''),
      (PInt 0x40, PStr ''blake2b''),
      (PInt 0x41, PStr ''blake2s'')]"
  by (simp add: CODES_def NAMES_def key_eq_def SHA1_def SHA2_256_def SHA2_512_def
      SHA3_def BLAKE2B_def BLAKE2S_def)

lemma is_valid_code_int:
  "is_valid_code (PInt c) =
     Inr ((0 \<le> c \<and> c < 16) \<or> c \<in> {SHA1, SHA2_256, SHA2_512, SHA3, BLAKE2B, BLAKE2S})"
  by (auto simp add: is_valid_code_def is_app_code_def bind_res_def contains_def
      CODES_items key_eq_def SHA1_def SHA2_256_def SHA2_512_def SHA3_def BLAKE2B_def
      BLAKE2S_def)

lemma is_app_code_total: "\<exists>b. is_app_code v = Inr b"
  by (auto simp add: is_app_code_def)

lemma is_app_code_non_integral: "\<not> is_integral v \<Longrightarrow> is_app_code v = Inr False"
  by (simp add: is_app_code_def)

lemma is_valid_code_hashable: "is_hashable v \<Longrightarrow> \<exists>b. is_valid_code v = Inr b"
  by (auto simp add: is_valid_code_def is_app_code_def bind_res_def contains_def)

text \<open>A float that equals a registered code is a key of \<open>CODES\<close>, as in Python.\<close>

lemma is_valid_code_float_17: "is_valid_code (PFloat 17) = Inr True"
  by (simp add: is_valid_code_def is_app_code_def bind_res_def contains_def CODES_items
      key_eq_def)

subsection \<open>The validators\<close>

text \<open>
  \<open>3 > n > 129\<close> holds for no \<open>n\<close>: the buffer-length check never raises, whatever the
  buffer.
\<close>

lemma buffer_length_never_raises: "raise_errors_if_invalid_buffer_length buf = Inr ()"
  by (simp add: raise_errors_if_invalid_buffer_length_def)

text \<open>
  The validator of \<open>decode\<close> never returns: past the code check it calls the dictionary
  \<open>LENGTHS\<close> (line 197).
\<close>

lemma multihash_buffer_result:
  "raise_errors_if_invalid_multihash_buffer code len name digest =
     (if is_valid_code (PInt code) = Inr True then Inl (TypeError DictNotCallable)
      else Inl (ValueError InvalidIdentifier))"
  by (auto simp add: raise_errors_if_invalid_multihash_buffer_def bind_res_def call_dict_def
      is_valid_code_int)

text \<open>
  The validator of \<open>encode\<close> stops at its second statement, the read of \<open>LENGHTS\<close>
  (line 210), for every digest, code and requested length.
\<close>

lemma encoding_length_NameError:
  "raise_errors_if_invalid_encoding_length digest code len = Inl (NameError ''LENGHTS'')"
  by (simp add: raise_errors_if_invalid_encoding_length_def LENGHTS_def bind_res_def)

subsection \<open>\<open>encode\<close> and \<open>decode\<close> return for no input\<close>

lemma encode_NameError: "encode digest code len name = Inl (NameError ''LENGHTS'')"
  by (simp add: encode_def encoding_length_NameError bind_res_def)

lemma decode_never_returns: "decode buf \<noteq> Inr r"
  by (auto simp add: decode_def bind_res_def multihash_buffer_result split: sum.splits)

lemmas decode_simps =
  decode_def bind_res_def buffer_length_never_raises byte_at_def getitem_def CODES_items
  key_eq_def multihash_buffer_result is_valid_code_int SHA1_def SHA2_256_def SHA2_512_def
  SHA3_def BLAKE2B_def BLAKE2S_def

subsection \<open>The module body\<close>

text \<open>With line 110 repaired the import still fails, so no call through the module returns.\<close>

lemma module_body_NameError: "module_body = Inl (NameError ''hashlib'')"
  by (simp add: module_body_def FUNCS_def hashlib_def bind_res_def)

lemma call_module_body: "call module_body f x = Inl (NameError ''hashlib'')"
  by (simp add: call_def module_body_NameError bind_res_def)

lemma is_valid_code_unhashable:
  "\<not> is_hashable v \<Longrightarrow> is_valid_code v = Inl (TypeError UnhashableType)"
  by (cases v) (simp_all add: is_valid_code_def is_app_code_def bind_res_def contains_def)

section \<open>The claims\<close>

text \<open>
  C1 (round trip). Claimed: for every registered identifier and every digest of its
  conventional length, decoding \<open>encode(digest, identifier)\<close> yields
  \<open>(identifier, len(digest), canonical_name, digest)\<close>. On the code, at the SHA1 digest
  of the docstrings: \<open>encode\<close> raises \<open>NameError\<close> (line 210) and produces no container,
  and \<open>decode\<close> of the container the claim expects (\<open>0x11 0x14\<close> and the 20 bytes) raises
  \<open>TypeError\<close> (line 197).
\<close>

theorem roundtrip_sha1_raises:
  "encode sha1_digest SHA1 None None = Inl (NameError ''LENGHTS'') \<and>
   decode ([0x11, 0x14] @ sha1_digest) = Inl (TypeError DictNotCallable)"
  by (simp add: encode_NameError decode_simps sha1_digest_def)

text \<open>
  C2 (buffer length). Claimed: \<open>decode\<close> fails with \<open>BufferLengthOutOfRange\<close> on every
  buffer whose length is outside [3, 129]. On the code the length check lets every buffer
  through: the empty buffer fails at \<open>buf[0]\<close> with \<open>IndexError\<close>, and a 2-byte and a
  130-byte buffer with code \<open>0x11\<close> reach the validator and fail there with \<open>TypeError\<close>.
\<close>

theorem decode_length_check_never_fires:
  "raise_errors_if_invalid_buffer_length buf = Inr () \<and>
   decode [] = Inl IndexError \<and>
   decode [0x11, 0x00] = Inl (TypeError DictNotCallable) \<and>
   decode ([0x11, 0x80] @ replicate 128 0) = Inl (TypeError DictNotCallable)"
  by (simp add: decode_simps)

text \<open>
  C3 (application-specific code \<open>0x05\<close>). Claimed: for every digest of length 1 to 127,
  \<open>encode\<close> succeeds, \<open>decode\<close> of the container succeeds, and the decoded name is \<open>None\<close>.
  On the code, at the one-byte digest \<open>00\<close>: \<open>encode\<close> raises \<open>NameError\<close>, and \<open>decode\<close> of
  the container \<open>05 01 00\<close> raises \<open>KeyError\<close> at \<open>CODES[code]\<close> (line 109).
\<close>

theorem app_specific_0x05_raises:
  "encode [0x00] 0x05 None None = Inl (NameError ''LENGHTS'') \<and>
   decode [0x05, 0x01, 0x00] = Inl (KeyError (PInt 5))"
  by (simp add: encode_NameError decode_simps)

text \<open>
  C4 (digest of the wrong length). Claimed: for a registered identifier \<open>encode\<close> fails with
  \<open>DigestLengthMismatch\<close> when the digest's length differs from the conventional one.
  On the code, at a 19-byte digest and SHA1: \<open>encode\<close> raises \<open>NameError\<close>, not the
  \<open>ValueError\<close> of line 218.
\<close>

theorem encode_wrong_length_sha1_raises_NameError:
  "encode (replicate 19 0x00) SHA1 None None = Inl (NameError ''LENGHTS'')"
  by (rule encode_NameError)

text \<open>
  C5 (truncation). Claimed: for \<open>1 \<le> k < len(digest)\<close>, \<open>encode(digest, id, length=k)\<close>
  is a container whose decoded digest is the first \<open>k\<close> bytes of \<open>digest\<close>; for the SHA1
  digest and \<open>k = 10\<close> it is \<open>0x11 0x0A\<close> and the first 10 bytes. On the code: \<open>encode\<close>
  raises \<open>NameError\<close>, and \<open>decode\<close> of that container raises \<open>TypeError\<close>.
\<close>

theorem encode_truncated_sha1_raises:
  "encode sha1_digest SHA1 (Some 10) None = Inl (NameError ''LENGHTS'') \<and>
   decode ([0x11, 0x0A] @ take 10 sha1_digest) = Inl (TypeError DictNotCallable)"
  by (simp add: encode_NameError decode_simps sha1_digest_def)

text \<open>
  C6 (valid identifiers). Claimed: \<open>is_valid_code\<close> is true exactly on the
  application-specific codes and the keys of the registry, and \<open>0x10\<close> is invalid and
  operations on it fail with \<open>InvalidIdentifier\<close>. On the code the predicate is as
  claimed, for every integer \<open>c\<close>, and \<open>0x10\<close> is invalid; but \<open>decode\<close> of \<open>10 01 00\<close>
  raises \<open>KeyError\<close> (the lookup of line 109 comes before the check of line 193) and
  \<open>encode\<close> raises \<open>NameError\<close> (line 210 comes before the check of line 212).
\<close>

theorem code_0x10_invalid_but_not_reported:
  "is_valid_code (PInt c) =
     Inr ((0 \<le> c \<and> c < 16) \<or> c \<in> {SHA1, SHA2_256, SHA2_512, SHA3, BLAKE2B, BLAKE2S}) \<and>
   is_valid_code (PInt 0x10) = Inr False \<and>
   decode [0x10, 0x01, 0x00] = Inl (KeyError (PInt 16)) \<and>
   encode [0x00] 0x10 None None = Inl (NameError ''LENGHTS'')"
  by (simp add: encode_NameError decode_simps)

text \<open>
  C7 (requested length too large). Claimed: \<open>encode\<close> with a requested length greater than
  the digest's length fails with \<open>RequestedLengthTooLarge\<close>. On the code, at the one-byte
  digest \<open>00\<close>, code \<open>0x05\<close> and requested length 2: \<open>encode\<close> raises \<open>NameError\<close>; the
  check of line 220 is never reached.
\<close>

theorem encode_requested_length_too_large_raises_NameError:
  "encode [0x00] 0x05 (Some 2) None = Inl (NameError ''LENGHTS'')"
  by (rule encode_NameError)

text \<open>
  C8 (illegal digest length). Claimed: \<open>encode\<close> fails with \<open>IllegalDigestLength\<close> when the
  effective length is outside [1, 127]. On the code, at the empty digest and code \<open>0x05\<close>
  (effective length 0): \<open>encode\<close> raises \<open>NameError\<close>; the check of line 227 is never
  reached.
\<close>

theorem encode_empty_digest_raises_NameError:
  "encode [] 0x05 None None = Inl (NameError ''LENGHTS'')"
  by (rule encode_NameError)

text \<open>
  C9 (the predicates on other values). Claimed: \<open>is_app_code\<close> returns \<open>False\<close> on every
  value that is not an integral number, so the classification predicates are total over
  arbitrary inputs. That fails for \<open>is_valid_code\<close> on an unhashable value: on the empty
  list the body of \<open>is_app_code\<close> gives \<open>False\<close> and the membership test \<open>code in CODES\<close>
  of \<open>is_valid_code\<close> raises \<open>TypeError\<close>.
\<close>

theorem is_valid_code_unhashable_raises:
  "is_app_code (PList []) = Inr False \<and>
   is_valid_code (PList []) = Inl (TypeError UnhashableType)"
  by (simp add: is_valid_code_def is_app_code_def bind_res_def contains_def)

text \<open>
  C9 as amended. For every value that is not an integral number the body of \<open>is_app_code\<close>
  evaluates to \<open>False\<close>, and on every value it raises no error of its own; the body of
  \<open>is_valid_code\<close> raises no error of its own on a hashable value, and raises \<open>TypeError\<close>
  on an unhashable one. Whether the import of the module returned is left open: a call
  through the module ends in the error of the import when there is one, and in these
  results otherwise.
\<close>

theorem classification_relative_to_import:
  "(\<not> is_integral v \<longrightarrow>
      call loaded is_app_code v = bind_res loaded (\<lambda>u. Inr False)) \<and>
   (\<exists>b. call loaded is_app_code v = bind_res loaded (\<lambda>u. Inr b)) \<and>
   (is_hashable v \<longrightarrow>
      (\<exists>b. call loaded is_valid_code v = bind_res loaded (\<lambda>u. Inr b))) \<and>
   (\<not> is_hashable v \<longrightarrow>
      call loaded is_valid_code v = bind_res loaded (\<lambda>u. Inl (TypeError UnhashableType)))"
proof (intro conjI impI)
  assume "\<not> is_integral v"
  then show "call loaded is_app_code v = bind_res loaded (\<lambda>u. Inr False)"
    by (simp add: call_def is_app_code_non_integral)
next
  obtain b where "is_app_code v = Inr b"
    using is_app_code_total by blast
  then have "call loaded is_app_code v = bind_res loaded (\<lambda>u. Inr b)"
    by (simp add: call_def)
  then show "\<exists>b. call loaded is_app_code v = bind_res loaded (\<lambda>u. Inr b)" ..
next
  assume "is_hashable v"
  then obtain b where "is_valid_code v = Inr b"
    using is_valid_code_hashable by blast
  then have "call loaded is_valid_code v = bind_res loaded (\<lambda>u. Inr b)"
    by (simp add: call_def)
  then show "\<exists>b. call loaded is_valid_code v = bind_res loaded (\<lambda>u. Inr b)" ..
next
  assume "\<not> is_hashable v"
  then show "call loaded is_valid_code v =
      bind_res loaded (\<lambda>u. Inl (TypeError UnhashableType))"
    by (simp add: call_def is_valid_code_unhashable)
qed

text \<open>
  At the string \<open>'sha1'\<close> (not integral, hashable) and at the empty list (not integral,
  unhashable), for a module whose import returned and for the module as it is written.
\<close>

theorem classification_relative_to_import_witness:
  "call (Inr ()) is_app_code (PStr ''sha1'') = Inr False \<and>
   (\<exists>b. call (Inr ()) is_valid_code (PStr ''sha1'') = Inr b) \<and>
   call (Inr ()) is_app_code (PList []) = Inr False \<and>
   call (Inr ()) is_valid_code (PList []) = Inl (TypeError UnhashableType) \<and>
   call module_body is_app_code (PStr ''sha1'') = Inl (NameError ''hashlib'') \<and>
   call module_body is_valid_code (PList []) = Inl (NameError ''hashlib'')"
proof -
  have s: "\<not> is_integral (PStr ''sha1'')" "is_hashable (PStr ''sha1'')" by simp_all
  have l: "\<not> is_integral (PList [])" "\<not> is_hashable (PList [])" by simp_all
  note at_str = classification_relative_to_import [of "PStr ''sha1''" "Inr ()"]
  note at_list = classification_relative_to_import [of "PList []" "Inr ()"]
  note shipped_str = classification_relative_to_import [of "PStr ''sha1''" module_body]
  note shipped_list = classification_relative_to_import [of "PList []" module_body]
  from at_str s have 1: "call (Inr ()) is_app_code (PStr ''sha1'') = Inr False"
    by (simp add: bind_res_def)
  from at_str s have 2: "\<exists>b. call (Inr ()) is_valid_code (PStr ''sha1'') = Inr b"
    by (simp add: bind_res_def)
  from at_list l have 3: "call (Inr ()) is_app_code (PList []) = Inr False"
    by (simp add: bind_res_def)
  from at_list l have 4:
    "call (Inr ()) is_valid_code (PList []) = Inl (TypeError UnhashableType)"
    by (simp add: bind_res_def)
  from shipped_str s have 5:
    "call module_body is_app_code (PStr ''sha1'') = Inl (NameError ''hashlib'')"
    by (simp add: bind_res_def module_body_NameError)
  from shipped_list l have 6:
    "call module_body is_valid_code (PList []) = Inl (NameError ''hashlib'')"
    by (simp add: bind_res_def module_body_NameError)
  from 1 2 3 4 5 6 show ?thesis by blast
qed

text \<open>
  C10 (requested length 0). Claimed: \<open>encode\<close> with \<open>requested_length = 0\<close> produces a
  container whose length byte is \<open>len(digest)\<close> and whose payload is empty. On the code,
  at the one-byte digest \<open>AA\<close> and code \<open>0x05\<close>: \<open>encode\<close> raises \<open>NameError\<close> and produces
  no container.
\<close>

theorem encode_requested_length_zero_raises:
  "encode [0xAA] 0x05 (Some 0) None = Inl (NameError ''LENGHTS'')"
  by (rule encode_NameError)

end
